theory Spec2Isabelle
  imports Complex_Main "HOL-Library.Char_ord" "HOL-Library.List_Lexorder" "HOL-Library.Sublist"
begin

section \<open>The product catalog of server.js\<close>

text \<open>
  A shallow embedding of the catalog code of \<^verbatim>\<open>src/server.js\<close>: the loader
  (\<^verbatim>\<open>productsData\<close>), the sample catalog (\<^verbatim>\<open>generateSampleProducts\<close>), the
  normaliser (\<^verbatim>\<open>transformProduct\<close>) and the query resolvers.

  Scalars are typed as the GraphQL schema of the file types them: \<^verbatim>\<open>String\<close> and
  \<^verbatim>\<open>ID\<close> as \<^typ>\<open>string\<close>, \<^verbatim>\<open>Int\<close> as \<^typ>\<open>int\<close>, \<^verbatim>\<open>Float\<close> as
  \<^typ>\<open>real\<close> (JSON carries neither NaN nor an infinity, and the code only compares
  numbers, so exact reals order them as the doubles are ordered). A property is optional
  (\<open>None\<close> is JavaScript's \<^verbatim>\<open>undefined\<close>) where the source guards it with
  \<^verbatim>\<open>||\<close> or \<^verbatim>\<open>?.\<close>, and every nested block is optional as well: reading a
  property of an absent block raises \<^verbatim>\<open>TypeError\<close>, which the model returns as a value.

  A \<^typ>\<open>string\<close> is a sequence of code units below 256: a \<^typ>\<open>char\<close> is the
  code unit of that number, so the strings of the model are the JavaScript strings over
  the Latin-1 range.
\<close>

subsection \<open>Errors\<close>

datatype error = TypeError | ENOENT | SyntaxError

definition bindE :: "error + 'a \<Rightarrow> ('a \<Rightarrow> error + 'b) \<Rightarrow> error + 'b" where
  "bindE m f = (case m of Inl e \<Rightarrow> Inl e | Inr x \<Rightarrow> f x)"

text \<open>\<^verbatim>\<open>o.prop\<close> where \<^verbatim>\<open>o\<close> may be \<^verbatim>\<open>undefined\<close>: the read raises on \<^verbatim>\<open>undefined\<close>.\<close>

definition deref :: "'a option \<Rightarrow> error + 'a" where
  "deref ob = (case ob of None \<Rightarrow> Inl TypeError | Some x \<Rightarrow> Inr x)"

subsection \<open>JavaScript operators\<close>

text \<open>\<^verbatim>\<open>xs[0]\<close> on an array: \<^verbatim>\<open>undefined\<close> when the array is empty.\<close>

definition nth0 :: "'a list \<Rightarrow> 'a option" where
  "nth0 xs = (case xs of [] \<Rightarrow> None | x # _ \<Rightarrow> Some x)"

text \<open>\<^verbatim>\<open>o?.prop\<close>: \<^verbatim>\<open>undefined\<close> when \<^verbatim>\<open>o\<close> is, the property otherwise.\<close>

definition optchain :: "'a option \<Rightarrow> ('a \<Rightarrow> 'b option) \<Rightarrow> 'b option" where
  "optchain ob prop = (case ob of None \<Rightarrow> None | Some x \<Rightarrow> prop x)"

text \<open>Truthiness: a number is falsy when it is 0, a string when it is empty.\<close>

definition truthy_num :: "'a::zero \<Rightarrow> bool" where
  "truthy_num n = (n \<noteq> 0)"

definition truthy_str :: "string \<Rightarrow> bool" where
  "truthy_str s = (s \<noteq> [])"

definition truthy_bool :: "bool \<Rightarrow> bool" where
  "truthy_bool b = b"

definition truthy_obj :: "'a \<Rightarrow> bool" where
  "truthy_obj x = True"

definition truthy :: "('a \<Rightarrow> bool) \<Rightarrow> 'a option \<Rightarrow> bool" where
  "truthy t v = (case v of None \<Rightarrow> False | Some x \<Rightarrow> t x)"

text \<open>\<^verbatim>\<open>v || d\<close>: the left operand when it is truthy, the right one otherwise.\<close>

definition or_else :: "('a \<Rightarrow> bool) \<Rightarrow> 'a option \<Rightarrow> 'a \<Rightarrow> 'a" where
  "or_else t v d = (case v of None \<Rightarrow> d | Some x \<Rightarrow> if t x then x else d)"

text \<open>
  \<^verbatim>\<open>String.prototype.toLowerCase\<close> on code units below 256. The capitals there
  are A to Z (65 to 90) and the Latin-1 capitals U+00C0 to U+00DE (192 to 222) without
  the multiplication sign U+00D7 (215); each has its small letter 32 places further, and
  every other code unit below 256 is left as it is.
\<close>

definition lower_char :: "char \<Rightarrow> char" where
  "lower_char c =
     (let n = (of_char c :: nat) in
      if (65 \<le> n \<and> n \<le> 90) \<or> (192 \<le> n \<and> n \<le> 214) \<or> (216 \<le> n \<and> n \<le> 222)
      then char_of (n + 32) else c)"

definition toLowerCase :: "string \<Rightarrow> string" where
  "toLowerCase s = map lower_char s"

text \<open>
  \<^verbatim>\<open>String.prototype.includes\<close>: the search string is looked for at every position
  of the receiver, the end included (the empty string is found everywhere).
\<close>

fun startsWith :: "string \<Rightarrow> string \<Rightarrow> bool" where
  "startsWith s [] = True"
| "startsWith [] (c # t) = False"
| "startsWith (d # s) (c # t) = (d = c \<and> startsWith s t)"

fun includes_str :: "string \<Rightarrow> string \<Rightarrow> bool" where
  "includes_str [] t = startsWith [] t"
| "includes_str (d # s) t = (startsWith (d # s) t \<or> includes_str s t)"

text \<open>\<^verbatim>\<open>xs.slice(0, end)\<close>: a negative end counts from the end of the array.\<close>

definition slice0 :: "'a list \<Rightarrow> int \<Rightarrow> 'a list" where
  "slice0 xs e = (if e < 0 then take (nat (int (length xs) + e)) xs else take (nat e) xs)"

text \<open>\<^verbatim>\<open>xs.filter(f)\<close> and \<^verbatim>\<open>xs.map(f)\<close> with a callback that may raise.\<close>

fun filterE :: "('a \<Rightarrow> error + bool) \<Rightarrow> 'a list \<Rightarrow> error + 'a list" where
  "filterE f [] = Inr []"
| "filterE f (x # xs) =
     bindE (f x) (\<lambda>keep. bindE (filterE f xs) (\<lambda>ys. Inr (if keep then x # ys else ys)))"

fun mapiE :: "(nat \<Rightarrow> 'a \<Rightarrow> error + 'b) \<Rightarrow> nat \<Rightarrow> 'a list \<Rightarrow> error + 'b list" where
  "mapiE f i [] = Inr []"
| "mapiE f i (x # xs) =
     bindE (f i x) (\<lambda>y. bindE (mapiE f (Suc i) xs) (\<lambda>ys. Inr (y # ys)))"

definition mapE :: "('a \<Rightarrow> error + 'b) \<Rightarrow> 'a list \<Rightarrow> error + 'b list" where
  "mapE f xs = mapiE (\<lambda>i. f) 0 xs"

text \<open>The decimal digits of an array index, as a template literal prints it.\<close>

fun string_of_nat :: "nat \<Rightarrow> string" where
  "string_of_nat n =
     (if n < 10 then [char_of (48 + n)]
      else string_of_nat (n div 10) @ [char_of (48 + n mod 10)])"

text \<open>\<^verbatim>\<open>[...new Set(xs)]\<close>: the elements in the order of their first occurrence.\<close>

definition new_Set :: "'a list \<Rightarrow> 'a list" where
  "new_Set xs = fold (\<lambda>x acc. if x \<in> set acc then acc else acc @ [x]) xs []"

subsection \<open>Raw records\<close>

record content =
  html :: string
  plainText :: string

record content_block =
  content :: "content option"

record chunk =
  wattage :: "int option"
  dimensions :: "string option"
  weight :: "real option"

record specifications_block =
  chunks :: "chunk list option"

record image =
  url :: string
  altText :: string

record images_block =
  images :: "image list option"

record components =
  description :: "content_block option"
  specifications :: "specifications_block option"
  features :: "content_block option"
  productImages :: "images_block option"

record price_variant =
  currency :: "string option"

record raw_variant =
  vname :: string
  sku :: string
  price :: "real option"
  priceVariants :: "price_variant list option"
  stock :: int
  isDefault :: "bool option"

record raw_product =
  ident :: string
  name :: string
  path :: string
  category :: string
  components :: "components option"
  variants :: "raw_variant list option"

subsection \<open>Products of the GraphQL schema\<close>

text \<open>
  The fields of the objects \<^verbatim>\<open>transformProduct\<close> builds carry a prefix here, since
  they share their names with the fields of the raw records. The raw \<^verbatim>\<open>id\<close> is
  \<open>ident\<close> and a variant's \<^verbatim>\<open>name\<close> is \<open>vname\<close>.
\<close>

record specs =
  s_wattage :: int
  s_dimensions :: string
  s_weight :: real

record product_variant =
  pv_id :: string
  pv_name :: string
  pv_sku :: string
  pv_price :: "real option"
  pv_currency :: string
  pv_stock :: int
  pv_isDefault :: bool

record product =
  p_id :: string
  p_name :: string
  p_path :: string
  p_category :: string
  p_description :: content
  p_specifications :: specs
  p_features :: content
  p_images :: "image list"
  p_variants :: "product_variant list"
  p_price :: real
  p_currency :: string

subsection \<open>transformProduct\<close>

text \<open>The object \<^verbatim>\<open>{}\<close> that stands in for a missing first chunk.\<close>

definition empty_chunk :: chunk where
  "empty_chunk = \<lparr>wattage = None, dimensions = None, weight = None\<rparr>"

text \<open>The callback of \<^verbatim>\<open>product.variants.map\<close>.\<close>

definition transformVariant :: "string \<Rightarrow> nat \<Rightarrow> raw_variant \<Rightarrow> error + product_variant" where
  "transformVariant pid index variant =
     bindE (deref (priceVariants variant)) (\<lambda>pvs.
       Inr \<lparr>pv_id = pid @ ''-variant-'' @ string_of_nat index,
            pv_name = vname variant,
            pv_sku = sku variant,
            pv_price = price variant,
            pv_currency = or_else truthy_str (optchain (nth0 pvs) currency) ''GBP'',
            pv_stock = stock variant,
            pv_isDefault = or_else truthy_bool (isDefault variant) False\<rparr>)"

text \<open>\<^verbatim>\<open>product.variants[0]?.priceVariants[0]?.currency\<close>.\<close>

definition first_currency :: "raw_variant list \<Rightarrow> error + string option" where
  "first_currency vs =
     (case nth0 vs of
        None \<Rightarrow> Inr None
      | Some v \<Rightarrow> bindE (deref (priceVariants v)) (\<lambda>pvs. Inr (optchain (nth0 pvs) currency)))"

definition transformProduct :: "raw_product \<Rightarrow> error + product" where
  "transformProduct product =
     bindE (deref (components product)) (\<lambda>c.
     bindE (deref (specifications c)) (\<lambda>sb.
     bindE (deref (chunks sb)) (\<lambda>chs.
     bindE (deref (description c)) (\<lambda>db.
     bindE (deref (content db)) (\<lambda>d.
     bindE (deref (features c)) (\<lambda>fb.
     bindE (deref (content fb)) (\<lambda>f.
     bindE (deref (productImages c)) (\<lambda>ib.
     bindE (deref (variants product)) (\<lambda>vs.
     bindE (mapiE (transformVariant (ident product)) 0 vs) (\<lambda>tvs.
     bindE (first_currency vs) (\<lambda>cur.
       let specs = or_else truthy_obj (nth0 chs) empty_chunk in
       Inr \<lparr>p_id = ident product,
            p_name = name product,
            p_path = path product,
            p_category = category product,
            p_description = \<lparr>html = html d, plainText = plainText d\<rparr>,
            p_specifications =
              \<lparr>s_wattage = or_else truthy_num (wattage specs) 0,
               s_dimensions = or_else truthy_str (dimensions specs) ''Unknown'',
               s_weight = or_else truthy_num (weight specs) 0\<rparr>,
            p_features = \<lparr>html = html f, plainText = plainText f\<rparr>,
            p_images = (case images ib of None \<Rightarrow> [] | Some imgs \<Rightarrow> imgs),
            p_variants = tvs,
            p_price = or_else truthy_num (optchain (nth0 vs) price) 0,
            p_currency = or_else truthy_str cur ''GBP''\<rparr>)))))))))))"

subsection \<open>generateSampleProducts\<close>

definition generateSampleProducts :: "raw_product list" where
  "generateSampleProducts =
     [\<lparr>ident = ''sample-panel-heater'',
       name = ''Sample Infrared Panel Heater'',
       path = ''/infrared-heaters/panel-heaters/sample-panel-heater'',
       category = ''Panel Heaters'',
       components = Some
         \<lparr>description = Some \<lparr>content = Some
            \<lparr>html = ''<p>High-quality infrared panel heater for efficient heating.</p>'',
             plainText = ''High-quality infrared panel heater for efficient heating.''\<rparr>\<rparr>,
          specifications = Some \<lparr>chunks = Some
            [\<lparr>wattage = Some 900, dimensions = Some ''1000mm x 800mm'',
              weight = Some (85 / 10)\<rparr>]\<rparr>,
          features = Some \<lparr>content = Some
            \<lparr>html = ''<ul><li>Energy efficient</li><li>Easy installation</li></ul>'',
             plainText = ''Energy efficient, Easy installation''\<rparr>\<rparr>,
          productImages = Some \<lparr>images = Some []\<rparr>\<rparr>,
       variants = Some
         [\<lparr>vname = ''900W'', sku = ''SAM-900W'', price = Some (29999 / 100),
           priceVariants = Some [\<lparr>currency = Some ''GBP''\<rparr>],
           stock = 10, isDefault = Some True\<rparr>]\<rparr>]"

subsection \<open>The loader\<close>

text \<open>
  What \<^verbatim>\<open>JSON.parse\<close> returns, as far as the loader looks at it. \<^verbatim>\<open>null\<close> has no
  properties. Any other value has a \<^verbatim>\<open>products\<close> property: \<open>None\<close> when the
  property is absent or falsy (also for a number, a string, a boolean or an array at top
  level), the records when it is an array of records.
\<close>

datatype parsed_data = JsonNull | JsonValue "raw_product list option"

text \<open>
  The outcomes of reading and parsing \<^verbatim>\<open>crystallize-products.json\<close>:
  \<^verbatim>\<open>fs.readFileSync\<close> raises, \<^verbatim>\<open>JSON.parse\<close> raises, or a value is parsed.
\<close>

datatype load_outcome = FileMissing | Unparseable | Parsed parsed_data

text \<open>The body of the \<^verbatim>\<open>try\<close> block.\<close>

definition try_load :: "load_outcome \<Rightarrow> error + raw_product list" where
  "try_load outcome =
     (case outcome of
        FileMissing \<Rightarrow> Inl ENOENT
      | Unparseable \<Rightarrow> Inl SyntaxError
      | Parsed parsedData \<Rightarrow>
          (case parsedData of
             JsonNull \<Rightarrow> Inl TypeError
           | JsonValue ps \<Rightarrow> Inr (case ps of None \<Rightarrow> [] | Some xs \<Rightarrow> xs)))"

text \<open>The module-level \<^verbatim>\<open>productsData\<close> after the \<^verbatim>\<open>try\<close>/\<^verbatim>\<open>catch\<close> has run.\<close>

definition productsData :: "load_outcome \<Rightarrow> raw_product list" where
  "productsData outcome =
     (case try_load outcome of Inl e \<Rightarrow> generateSampleProducts | Inr xs \<Rightarrow> xs)"

subsection \<open>The resolvers\<close>

record product_filter =
  f_category :: "string option"
  minPrice :: "real option"
  maxPrice :: "real option"
  minWattage :: "int option"
  maxWattage :: "int option"

text \<open>\<^verbatim>\<open>p.variants[0]?.price || 0\<close>.\<close>

definition first_price :: "raw_product \<Rightarrow> error + real" where
  "first_price p =
     bindE (deref (variants p)) (\<lambda>vs. Inr (or_else truthy_num (optchain (nth0 vs) price) 0))"

text \<open>\<^verbatim>\<open>p.components.specifications.chunks[0]?.wattage || 0\<close>.\<close>

definition first_wattage :: "raw_product \<Rightarrow> error + int" where
  "first_wattage p =
     bindE (deref (components p)) (\<lambda>c.
     bindE (deref (specifications c)) (\<lambda>sb.
     bindE (deref (chunks sb)) (\<lambda>chs.
       Inr (or_else truthy_num (optchain (nth0 chs) wattage) 0))))"

text \<open>\<^verbatim>\<open>(!lo || x >= lo) && (!hi || x <= hi)\<close>.\<close>

definition in_bounds :: "'a::linordered_idom option \<Rightarrow> 'a option \<Rightarrow> 'a \<Rightarrow> bool" where
  "in_bounds lo hi x =
     ((case lo of None \<Rightarrow> True | Some l \<Rightarrow> l = 0 \<or> l \<le> x) \<and>
      (case hi of None \<Rightarrow> True | Some h \<Rightarrow> h = 0 \<or> x \<le> h))"

text \<open>
  \<^verbatim>\<open>products(first: Int = 20, filter: ProductFilter)\<close>. The catalog is the first
  argument; \<open>None\<close> for \<open>first\<close> is an omitted argument, which takes the default.
\<close>

definition products ::
  "raw_product list \<Rightarrow> int option \<Rightarrow> product_filter option \<Rightarrow> error + product list" where
  "products catalog first filt =
     bindE
       (case filt of
          None \<Rightarrow> Inr catalog
        | Some f \<Rightarrow>
            bindE (Inr (case f_category f of
                          None \<Rightarrow> catalog
                        | Some c \<Rightarrow>
                            if truthy_str c
                            then filter (\<lambda>p. includes_str (toLowerCase (category p))
                                                (toLowerCase c)) catalog
                            else catalog)) (\<lambda>byCategory.
            bindE (if truthy truthy_num (minPrice f) \<or> truthy truthy_num (maxPrice f)
                   then filterE (\<lambda>p. bindE (first_price p) (\<lambda>price.
                          Inr (in_bounds (minPrice f) (maxPrice f) price))) byCategory
                   else Inr byCategory) (\<lambda>byPrice.
            if truthy truthy_num (minWattage f) \<or> truthy truthy_num (maxWattage f)
            then filterE (\<lambda>p. bindE (first_wattage p) (\<lambda>wattage.
                   Inr (in_bounds (minWattage f) (maxWattage f) wattage))) byPrice
            else Inr byPrice)))
       (\<lambda>filteredProducts.
          mapE transformProduct
            (slice0 filteredProducts (case first of None \<Rightarrow> 20 | Some n \<Rightarrow> n)))"

text \<open>
  \<^verbatim>\<open>[...new Set(productsData.map(p => p.category))].sort()\<close>. Without a
  comparator \<^verbatim>\<open>sort\<close> orders strings by their code units, a prefix before its
  extensions: the lexicographic order of \<^typ>\<open>string\<close> over the character codes.
\<close>

definition categories :: "raw_product list \<Rightarrow> string list" where
  "categories catalog = sort (new_Set (map category catalog))"

text \<open>
  The callback of \<^verbatim>\<open>searchProducts\<close>. \<^verbatim>\<open>||\<close> evaluates its right operand only
  when the left one is false, so the description is not read when the name matches.
\<close>

definition search_match :: "string \<Rightarrow> raw_product \<Rightarrow> error + bool" where
  "search_match searchTerm p =
     (if includes_str (toLowerCase (name p)) searchTerm then Inr True
      else
        bindE (deref (components p)) (\<lambda>c.
        bindE (deref (description c)) (\<lambda>db.
        bindE (deref (content db)) (\<lambda>d.
          Inr (includes_str (toLowerCase (plainText d)) searchTerm \<or>
               includes_str (toLowerCase (category p)) searchTerm)))))"

definition searchProducts :: "raw_product list \<Rightarrow> string \<Rightarrow> error + product list" where
  "searchProducts catalog query =
     bindE (filterE (search_match (toLowerCase query)) catalog) (\<lambda>filteredProducts.
       mapE transformProduct filteredProducts)"

definition productsByPriceRange ::
  "raw_product list \<Rightarrow> real \<Rightarrow> real \<Rightarrow> error + product list" where
  "productsByPriceRange catalog lo hi =
     bindE (filterE (\<lambda>p. bindE (first_price p) (\<lambda>price.
              Inr (lo \<le> price \<and> price \<le> hi))) catalog) (\<lambda>filteredProducts.
       mapE transformProduct filteredProducts)"


subsection \<open>Well-formed records and the normalised catalog\<close>

text \<open>
  A record is well formed when every block \<^verbatim>\<open>transformProduct\<close> reads through is
  present: \<^verbatim>\<open>components\<close> with \<^verbatim>\<open>description.content\<close>,
  \<^verbatim>\<open>specifications.chunks\<close>, \<^verbatim>\<open>features.content\<close> and \<^verbatim>\<open>productImages\<close>,
  and a \<^verbatim>\<open>variants\<close> array whose entries each carry \<^verbatim>\<open>priceVariants\<close>.
\<close>

definition has_content :: "content_block option \<Rightarrow> bool" where
  "has_content b = (case b of None \<Rightarrow> False | Some cb \<Rightarrow> content cb \<noteq> None)"

definition has_chunks :: "specifications_block option \<Rightarrow> bool" where
  "has_chunks b = (case b of None \<Rightarrow> False | Some sb \<Rightarrow> chunks sb \<noteq> None)"

definition well_formed :: "raw_product \<Rightarrow> bool" where
  "well_formed p =
     ((case components p of
         None \<Rightarrow> False
       | Some c \<Rightarrow> has_content (description c) \<and> has_chunks (specifications c) \<and>
           has_content (features c) \<and> productImages c \<noteq> None) \<and>
      (case variants p of
         None \<Rightarrow> False
       | Some vs \<Rightarrow> list_all (\<lambda>v. priceVariants v \<noteq> None) vs))"

text \<open>
  The products of a catalog, record by record. On a well-formed record
  \<^verbatim>\<open>transformProduct\<close> returns, and \<open>projr\<close> takes the product it returns.
\<close>

definition normalized :: "raw_product list \<Rightarrow> product list" where
  "normalized catalog = map (\<lambda>p. projr (transformProduct p)) catalog"

text \<open>
  The default variant as the specification words it: the variant flagged
  \<^verbatim>\<open>isDefault\<close>, or, if none is flagged, the first variant in source order.
\<close>

definition default_variant_spec :: "product_variant list \<Rightarrow> product_variant option" where
  "default_variant_spec vs =
     (case find pv_isDefault vs of Some d \<Rightarrow> Some d | None \<Rightarrow> nth0 vs)"

subsection \<open>Concrete inputs\<close>

text \<open>A filter whose price range has a non-zero lower bound above a zero upper bound.\<close>

definition zero_bound_filter :: product_filter where
  "zero_bound_filter =
     \<lparr>f_category = None, minPrice = Some 5, maxPrice = Some 0,
      minWattage = None, maxWattage = None\<rparr>"

text \<open>
  A record that carries every block, the specifications block apart, which is the first
  argument; the second argument is its variants.
\<close>

definition bare_components :: "specifications_block option \<Rightarrow> components" where
  "bare_components sb =
     \<lparr>description = Some \<lparr>content = Some \<lparr>html = ''<p>Bare</p>'', plainText = ''Bare''\<rparr>\<rparr>,
      specifications = sb,
      features = Some \<lparr>content = Some \<lparr>html = ''<ul></ul>'', plainText = []\<rparr>\<rparr>,
      productImages = Some \<lparr>images = None\<rparr>\<rparr>"

definition bare_record ::
  "specifications_block option \<Rightarrow> raw_variant list \<Rightarrow> raw_product" where
  "bare_record sb vs =
     \<lparr>ident = ''bare-heater'', name = ''Bare Heater'', path = ''/bare-heater'',
      category = ''Panel Heaters'', components = Some (bare_components sb),
      variants = Some vs\<rparr>"

definition no_specifications_record :: raw_product where
  "no_specifications_record = bare_record None []"

definition no_chunk_record :: raw_product where
  "no_chunk_record = bare_record (Some \<lparr>chunks = Some []\<rparr>) []"

definition flagged_second_record :: raw_product where
  "flagged_second_record =
     bare_record (Some \<lparr>chunks = Some []\<rparr>)
       [\<lparr>vname = ''600W'', sku = ''H-600'', price = Some 100,
         priceVariants = Some [\<lparr>currency = Some ''GBP''\<rparr>], stock = 3,
         isDefault = Some False\<rparr>,
        \<lparr>vname = ''900W'', sku = ''H-900'', price = Some 200,
         priceVariants = Some [\<lparr>currency = Some ''EUR''\<rparr>], stock = 4,
         isDefault = Some True\<rparr>]"

definition flagged_second_product :: product where
  "flagged_second_product =
     \<lparr>p_id = ''bare-heater'', p_name = ''Bare Heater'', p_path = ''/bare-heater'',
      p_category = ''Panel Heaters'',
      p_description = \<lparr>html = ''<p>Bare</p>'', plainText = ''Bare''\<rparr>,
      p_specifications = \<lparr>s_wattage = 0, s_dimensions = ''Unknown'', s_weight = 0\<rparr>,
      p_features = \<lparr>html = ''<ul></ul>'', plainText = []\<rparr>,
      p_images = [],
      p_variants =
        [\<lparr>pv_id = ''bare-heater-variant-0'', pv_name = ''600W'', pv_sku = ''H-600'',
          pv_price = Some 100, pv_currency = ''GBP'', pv_stock = 3, pv_isDefault = False\<rparr>,
         \<lparr>pv_id = ''bare-heater-variant-1'', pv_name = ''900W'', pv_sku = ''H-900'',
          pv_price = Some 200, pv_currency = ''EUR'', pv_stock = 4, pv_isDefault = True\<rparr>],
      p_price = 100, p_currency = ''GBP''\<rparr>"

text \<open>A record with a single variant of the given price.\<close>

definition priced_record :: "real \<Rightarrow> raw_product" where
  "priced_record x =
     bare_record (Some \<lparr>chunks = Some []\<rparr>)
       [\<lparr>vname = ''One'', sku = ''ONE'', price = Some x, priceVariants = Some [],
         stock = 1, isDefault = None\<rparr>]"

text \<open>A record priced 200 that has no specifications block.\<close>

definition priced_no_specifications_record :: raw_product where
  "priced_no_specifications_record =
     bare_record None
       [\<lparr>vname = ''One'', sku = ''ONE'', price = Some 200, priceVariants = Some [],
         stock = 1, isDefault = None\<rparr>]"

text \<open>Prices on and just outside the bounds 200 and 500.\<close>

definition boundary_catalog :: "raw_product list" where
  "boundary_catalog =
     [priced_record 200, priced_record 500, priced_record (19999 / 100),
      priced_record (50001 / 100)]"

definition search_catalog :: "raw_product list" where
  "search_catalog = generateSampleProducts @ [no_chunk_record]"

definition category_catalog :: "raw_product list" where
  "category_catalog =
     map (\<lambda>c. no_chunk_record\<lparr>category := c\<rparr>) [''b'', ''a'', ''b'', ''B'']"

definition reversed_price_filter :: product_filter where
  "reversed_price_filter =
     \<lparr>f_category = None, minPrice = Some 500, maxPrice = Some 200,
      minWattage = None, maxWattage = None\<rparr>"

definition zero_max_filter :: product_filter where
  "zero_max_filter =
     \<lparr>f_category = None, minPrice = None, maxPrice = Some 0,
      minWattage = None, maxWattage = None\<rparr>"

definition range_filter :: product_filter where
  "range_filter =
     \<lparr>f_category = Some ''PANEL'', minPrice = Some 200, maxPrice = Some 500,
      minWattage = None, maxWattage = Some 0\<rparr>"

section \<open>Properties\<close>

subsection \<open>Errors of transformProduct\<close>

text \<open>
  \<^verbatim>\<open>transformProduct\<close> returns a product exactly on the well-formed records, and
  raises \<^verbatim>\<open>TypeError\<close> on every other record.
\<close>

lemma bindE_simps [simp]:
  "bindE (Inl e) f = Inl e"
  "bindE (Inr x) f = f x"
  by (simp_all add: bindE_def)

lemma deref_simps [simp]:
  "deref None = Inl TypeError"
  "deref (Some x) = Inr x"
  by (simp_all add: deref_def)

lemma bindE_eq_Inr:
  "bindE m f = Inr y \<longleftrightarrow> (\<exists>x. m = Inr x \<and> f x = Inr y)"
  by (cases m) simp_all

lemma transformVariant_Some:
  "priceVariants v = Some pvs \<Longrightarrow>
   transformVariant pid i v =
     Inr \<lparr>pv_id = pid @ ''-variant-'' @ string_of_nat i, pv_name = vname v, pv_sku = sku v,
          pv_price = price v,
          pv_currency = or_else truthy_str (optchain (nth0 pvs) currency) ''GBP'',
          pv_stock = stock v, pv_isDefault = or_else truthy_bool (isDefault v) False\<rparr>"
  by (simp add: transformVariant_def)

lemma transformVariant_None:
  "priceVariants v = None \<Longrightarrow> transformVariant pid i v = Inl TypeError"
  by (simp add: transformVariant_def)

lemma mapiE_transformVariant_ok:
  "list_all (\<lambda>v. priceVariants v \<noteq> None) vs \<Longrightarrow>
   \<exists>tvs. mapiE (transformVariant pid) i vs = Inr tvs \<and>
     list_all2 (\<lambda>v tv. pv_price tv = price v \<and>
        pv_currency tv =
          or_else truthy_str (optchain (nth0 (the (priceVariants v))) currency) ''GBP'' \<and>
        pv_isDefault tv = (isDefault v = Some True)) vs tvs"
proof (induction vs arbitrary: i)
  case Nil
  then show ?case by simp
next
  case (Cons v vs)
  from Cons.prems obtain pvs where pv: "priceVariants v = Some pvs"
    and rest: "list_all (\<lambda>v. priceVariants v \<noteq> None) vs"
    by auto
  from Cons.IH [OF rest, of "Suc i"] obtain tvs where
    tvs: "mapiE (transformVariant pid) (Suc i) vs = Inr tvs"
    and rel: "list_all2 (\<lambda>v tv. pv_price tv = price v \<and>
        pv_currency tv =
          or_else truthy_str (optchain (nth0 (the (priceVariants v))) currency) ''GBP'' \<and>
        pv_isDefault tv = (isDefault v = Some True)) vs tvs"
    by blast
  show ?case
    using pv tvs rel
    by (auto simp: transformVariant_Some or_else_def truthy_bool_def split: option.splits)
qed

lemma mapiE_transformVariant_fail:
  "\<not> list_all (\<lambda>v. priceVariants v \<noteq> None) vs \<Longrightarrow>
   mapiE (transformVariant pid) i vs = Inl TypeError"
proof (induction vs arbitrary: i)
  case Nil
  then show ?case by simp
next
  case (Cons v vs)
  show ?case
  proof (cases "priceVariants v")
    case None
    then show ?thesis by (simp add: transformVariant_None)
  next
    case (Some pvs)
    with Cons.prems have "\<not> list_all (\<lambda>v. priceVariants v \<noteq> None) vs" by simp
    from Cons.IH [OF this] Some show ?thesis
      by (simp add: transformVariant_Some)
  qed
qed

lemma first_currency_ok:
  "list_all (\<lambda>v. priceVariants v \<noteq> None) vs \<Longrightarrow>
   first_currency vs =
     Inr (case vs of [] \<Rightarrow> None
          | v # _ \<Rightarrow> optchain (nth0 (the (priceVariants v))) currency)"
  by (cases vs) (auto simp: first_currency_def nth0_def)

lemma transformProduct_ok:
  assumes "well_formed p"
  shows "\<exists>out. transformProduct p = Inr out"
proof -
  from assms obtain c vs where c: "components p = Some c" and vs: "variants p = Some vs"
    and ok: "list_all (\<lambda>v. priceVariants v \<noteq> None) vs"
    and blocks: "has_content (description c)" "has_chunks (specifications c)"
      "has_content (features c)" "productImages c \<noteq> None"
    by (auto simp: well_formed_def split: option.splits)
  from mapiE_transformVariant_ok [OF ok] obtain tvs where
    "mapiE (transformVariant (ident p)) 0 vs = Inr tvs" by blast
  with c vs blocks first_currency_ok [OF ok] show ?thesis
    by (auto simp: transformProduct_def has_content_def has_chunks_def Let_def
        split: option.splits)
qed

lemma bindE_eq_Inl:
  "bindE m f = Inl e \<longleftrightarrow> m = Inl e \<or> (\<exists>x. m = Inr x \<and> f x = Inl e)"
  by (cases m) simp_all

lemma deref_eq_Inl: "deref ob = Inl e \<longleftrightarrow> ob = None \<and> e = TypeError"
  by (cases ob) auto

lemma deref_eq_Inr: "deref ob = Inr x \<longleftrightarrow> ob = Some x"
  by (cases ob) auto

lemma bindE_InrE:
  assumes "bindE m f = Inr y"
  obtains x where "m = Inr x" and "f x = Inr y"
  using assms by (cases m) simp_all

lemma bindE_InlE:
  assumes "bindE m f = Inl e"
  obtains "m = Inl e" | x where "m = Inr x" and "f x = Inl e"
  using assms by (cases m) simp_all

lemma mapiE_transformVariant_Inr:
  assumes "mapiE (transformVariant pid) i vs = Inr tvs"
  shows "list_all (\<lambda>v. priceVariants v \<noteq> None) vs"
proof (rule ccontr)
  assume "\<not> list_all (\<lambda>v. priceVariants v \<noteq> None) vs"
  from mapiE_transformVariant_fail [OF this, of pid i] assms show False by simp
qed

lemma mapiE_transformVariant_error:
  assumes "mapiE (transformVariant pid) i vs = Inl e"
  shows "e = TypeError"
proof (cases "list_all (\<lambda>v. priceVariants v \<noteq> None) vs")
  case True
  from mapiE_transformVariant_ok [OF this, of pid i] assms show ?thesis by auto
next
  case False
  from mapiE_transformVariant_fail [OF this, of pid i] assms show ?thesis by simp
qed

lemma first_currency_error:
  assumes "first_currency vs = Inl e"
  shows "e = TypeError"
proof (cases vs)
  case Nil
  with assms show ?thesis by (simp add: first_currency_def nth0_def)
next
  case (Cons v vs')
  with assms show ?thesis
    by (cases "priceVariants v") (simp_all add: first_currency_def nth0_def)
qed

lemma transformProduct_error:
  assumes "transformProduct p = Inl e"
  shows "e = TypeError"
  using assms unfolding transformProduct_def Let_def
  by (elim bindE_InlE)
    (simp_all add: deref_eq_Inl mapiE_transformVariant_error first_currency_error)

lemma transformProduct_Inr_well_formed:
  assumes "transformProduct p = Inr out"
  shows "well_formed p"
  using assms unfolding transformProduct_def Let_def
  apply (elim bindE_InrE)
  apply (frule mapiE_transformVariant_Inr)
  apply (simp add: deref_eq_Inr well_formed_def has_content_def has_chunks_def)
  done

lemma transformProduct_fail:
  assumes "\<not> well_formed p"
  shows "transformProduct p = Inl TypeError"
proof (cases "transformProduct p")
  case (Inl e)
  then show ?thesis using transformProduct_error by blast
next
  case (Inr out)
  then show ?thesis using assms transformProduct_Inr_well_formed by blast
qed

subsection \<open>The loader\<close>

lemma productsData_sample:
  "productsData FileMissing = generateSampleProducts"
  "productsData Unparseable = generateSampleProducts"
  "productsData (Parsed JsonNull) = generateSampleProducts"
  by (simp_all add: productsData_def try_load_def)

lemma productsData_value:
  "productsData (Parsed (JsonValue ps)) = (case ps of None \<Rightarrow> [] | Some xs \<Rightarrow> xs)"
  by (simp add: productsData_def try_load_def)

lemma generateSampleProducts_nonempty: "generateSampleProducts \<noteq> []"
  by (simp add: generateSampleProducts_def)

text \<open>
  C3, as stated, fails: a file that parses to a value without a \<^verbatim>\<open>products\<close>
  property, or with an empty \<^verbatim>\<open>products\<close> array, leaves the catalog empty. The
  \<^verbatim>\<open>try\<close> block raises nothing then, so the sample catalog is not generated.
\<close>

theorem productsData_empty_counterexample:
  "productsData (Parsed (JsonValue None)) = [] \<and>
   productsData (Parsed (JsonValue (Some []))) = []"
  by (simp add: productsData_value)

text \<open>
  C3, amended: the loader is total (it never raises). When the file is missing,
  unparseable or parses to \<^verbatim>\<open>null\<close>, the catalog is the generated sample catalog,
  which is not empty. The catalog is empty exactly when the file parses to a value whose
  \<^verbatim>\<open>products\<close> list is absent or empty; every other outcome yields a non-empty
  catalog.
\<close>

theorem productsData_nonempty:
  "productsData FileMissing = generateSampleProducts \<and>
   productsData Unparseable = generateSampleProducts \<and>
   productsData (Parsed JsonNull) = generateSampleProducts \<and>
   generateSampleProducts \<noteq> [] \<and>
   (productsData outcome = [] \<longleftrightarrow>
      outcome = Parsed (JsonValue None) \<or> outcome = Parsed (JsonValue (Some [])))"
proof -
  have "productsData outcome = [] \<longleftrightarrow>
      outcome = Parsed (JsonValue None) \<or> outcome = Parsed (JsonValue (Some []))"
  proof (cases outcome)
    case FileMissing
    then show ?thesis
      by (simp add: productsData_sample generateSampleProducts_nonempty)
  next
    case Unparseable
    then show ?thesis
      by (simp add: productsData_sample generateSampleProducts_nonempty)
  next
    case (Parsed parsedData)
    show ?thesis
    proof (cases parsedData)
      case JsonNull
      with Parsed show ?thesis
        by (simp add: productsData_sample generateSampleProducts_nonempty)
    next
      case (JsonValue ps)
      with Parsed show ?thesis
        by (cases ps) (simp_all add: productsData_value)
    qed
  qed
  then show ?thesis
    by (simp add: productsData_sample generateSampleProducts_nonempty)
qed

theorem productsData_nonempty_witness:
  "productsData (Parsed (JsonValue (Some generateSampleProducts))) \<noteq> [] \<and>
   productsData FileMissing \<noteq> []"
  using productsData_nonempty [of "Parsed (JsonValue (Some generateSampleProducts))"]
    productsData_nonempty [of FileMissing]
  by (simp add: generateSampleProducts_def)

subsection \<open>Zero bounds of the list filter\<close>

lemma truthy_zero [simp]:
  "truthy truthy_num (Some 0) = False"
  "truthy t None = False"
  by (simp_all add: truthy_def truthy_num_def)

lemma in_bounds_zero:
  "in_bounds (Some 0) hi = in_bounds None hi"
  "in_bounds lo (Some 0) = in_bounds lo None"
  by (simp_all add: in_bounds_def fun_eq_iff)

text \<open>
  C9: in the filter of \<^verbatim>\<open>products\<close>, a bound whose value is 0 is treated exactly as
  an omitted bound. For every catalog, limit and filter, replacing \<^verbatim>\<open>minPrice\<close>,
  \<^verbatim>\<open>maxPrice\<close>, \<^verbatim>\<open>minWattage\<close> or \<^verbatim>\<open>maxWattage\<close> by 0 gives the result of
  the filter without that bound (the same products, or the same error).
\<close>

theorem products_zero_bound_absent:
  "products catalog first (Some (f\<lparr>minPrice := Some 0\<rparr>)) =
     products catalog first (Some (f\<lparr>minPrice := None\<rparr>)) \<and>
   products catalog first (Some (f\<lparr>maxPrice := Some 0\<rparr>)) =
     products catalog first (Some (f\<lparr>maxPrice := None\<rparr>)) \<and>
   products catalog first (Some (f\<lparr>minWattage := Some 0\<rparr>)) =
     products catalog first (Some (f\<lparr>minWattage := None\<rparr>)) \<and>
   products catalog first (Some (f\<lparr>maxWattage := Some 0\<rparr>)) =
     products catalog first (Some (f\<lparr>maxWattage := None\<rparr>))"
  by (simp add: products_def in_bounds_zero)

theorem products_zero_bound_absent_witness:
  "products generateSampleProducts None (Some zero_bound_filter) =
     products generateSampleProducts None
       (Some \<lparr>f_category = None, minPrice = Some 5, maxPrice = None,
              minWattage = None, maxWattage = None\<rparr>)"
  using products_zero_bound_absent [of generateSampleProducts None zero_bound_filter]
  by (simp add: zero_bound_filter_def)

subsection \<open>The product transformProduct builds\<close>

lemma has_contentE:
  assumes "has_content b"
  obtains cb d where "b = Some cb" and "content cb = Some d"
  using assms by (auto simp: has_content_def split: option.splits)

lemma has_chunksE:
  assumes "has_chunks b"
  obtains sb chs where "b = Some sb" and "chunks sb = Some chs"
  using assms by (auto simp: has_chunks_def split: option.splits)

lemma transformProduct_eq:
  assumes "components p = Some c" "specifications c = Some sb" "chunks sb = Some chs"
    "description c = Some db" "content db = Some d"
    "features c = Some fb" "content fb = Some f"
    "productImages c = Some ib" "variants p = Some vs"
    "mapiE (transformVariant (ident p)) 0 vs = Inr tvs"
    "first_currency vs = Inr cur"
  shows "transformProduct p =
     Inr \<lparr>p_id = ident p, p_name = name p, p_path = path p,
        p_category = category p,
        p_description = \<lparr>html = html d, plainText = plainText d\<rparr>,
        p_specifications =
          \<lparr>s_wattage = or_else truthy_num (wattage (or_else truthy_obj (nth0 chs) empty_chunk)) 0,
           s_dimensions =
             or_else truthy_str (dimensions (or_else truthy_obj (nth0 chs) empty_chunk))
               ''Unknown'',
           s_weight = or_else truthy_num (weight (or_else truthy_obj (nth0 chs) empty_chunk)) 0\<rparr>,
        p_features = \<lparr>html = html f, plainText = plainText f\<rparr>,
        p_images = (case images ib of None \<Rightarrow> [] | Some imgs \<Rightarrow> imgs),
        p_variants = tvs,
        p_price = or_else truthy_num (optchain (nth0 vs) price) 0,
        p_currency = or_else truthy_str cur ''GBP''\<rparr>"
  by (simp add: transformProduct_def assms Let_def)

lemma well_formedE:
  assumes "well_formed p"
  obtains c sb chs db d fb f ib vs tvs cur where
    "components p = Some c" "specifications c = Some sb" "chunks sb = Some chs"
    "description c = Some db" "content db = Some d"
    "features c = Some fb" "content fb = Some f"
    "productImages c = Some ib" "variants p = Some vs"
    "mapiE (transformVariant (ident p)) 0 vs = Inr tvs"
    "first_currency vs = Inr cur"
    "list_all (\<lambda>v. priceVariants v \<noteq> None) vs"
proof -
  from assms obtain c vs where c: "components p = Some c" and vs: "variants p = Some vs"
    and ok: "list_all (\<lambda>v. priceVariants v \<noteq> None) vs"
    and blocks: "has_content (description c)" "has_chunks (specifications c)"
      "has_content (features c)" "productImages c \<noteq> None"
    by (auto simp: well_formed_def split: option.splits)
  from blocks(1) obtain db d where db: "description c = Some db" "content db = Some d"
    by (rule has_contentE)
  from blocks(2) obtain sb chs where sb: "specifications c = Some sb" "chunks sb = Some chs"
    by (rule has_chunksE)
  from blocks(3) obtain fb f where fb: "features c = Some fb" "content fb = Some f"
    by (rule has_contentE)
  from blocks(4) obtain ib where ib: "productImages c = Some ib" by auto
  from mapiE_transformVariant_ok [OF ok] obtain tvs where
    tvs: "mapiE (transformVariant (ident p)) 0 vs = Inr tvs" by blast
  note cur = first_currency_ok [OF ok]
  show thesis
    by (rule that [OF c sb db fb ib vs tvs cur ok])
qed

lemma transformProduct_InrD:
  assumes "transformProduct p = Inr out"
  obtains c sb chs db d fb f ib vs cur where
    "components p = Some c" "specifications c = Some sb" "chunks sb = Some chs"
    "description c = Some db" "content db = Some d"
    "features c = Some fb" "content fb = Some f"
    "productImages c = Some ib" "variants p = Some vs"
    "mapiE (transformVariant (ident p)) 0 vs = Inr (p_variants out)"
    "first_currency vs = Inr cur"
    "p_name out = name p" "p_category out = category p"
    "plainText (p_description out) = plainText d"
    "p_specifications out =
       \<lparr>s_wattage = or_else truthy_num (wattage (or_else truthy_obj (nth0 chs) empty_chunk)) 0,
        s_dimensions =
          or_else truthy_str (dimensions (or_else truthy_obj (nth0 chs) empty_chunk)) ''Unknown'',
        s_weight = or_else truthy_num (weight (or_else truthy_obj (nth0 chs) empty_chunk)) 0\<rparr>"
    "p_price out = or_else truthy_num (optchain (nth0 vs) price) 0"
    "p_currency out = or_else truthy_str cur ''GBP''"
proof -
  from assms have "well_formed p" by (rule transformProduct_Inr_well_formed)
  then obtain c sb chs db d fb f ib vs tvs cur where
    facts: "components p = Some c" "specifications c = Some sb" "chunks sb = Some chs"
      "description c = Some db" "content db = Some d"
      "features c = Some fb" "content fb = Some f"
      "productImages c = Some ib" "variants p = Some vs"
      "mapiE (transformVariant (ident p)) 0 vs = Inr tvs"
      "first_currency vs = Inr cur"
    by (rule well_formedE)
  from transformProduct_eq [OF facts] assms have out: "out = \<lparr>p_id = ident p, p_name = name p, p_path = path p,
        p_category = category p,
        p_description = \<lparr>html = html d, plainText = plainText d\<rparr>,
        p_specifications =
          \<lparr>s_wattage = or_else truthy_num (wattage (or_else truthy_obj (nth0 chs) empty_chunk)) 0,
           s_dimensions =
             or_else truthy_str (dimensions (or_else truthy_obj (nth0 chs) empty_chunk))
               ''Unknown'',
           s_weight = or_else truthy_num (weight (or_else truthy_obj (nth0 chs) empty_chunk)) 0\<rparr>,
        p_features = \<lparr>html = html f, plainText = plainText f\<rparr>,
        p_images = (case images ib of None \<Rightarrow> [] | Some imgs \<Rightarrow> imgs),
        p_variants = tvs,
        p_price = or_else truthy_num (optchain (nth0 vs) price) 0,
        p_currency = or_else truthy_str cur ''GBP''\<rparr>"
    by simp
  show thesis
    by (rule that [OF facts(1-9) _ facts(11)]) (simp_all add: out facts(10))
qed

text \<open>
  C2, as stated, fails: a record without a specifications block makes
  \<^verbatim>\<open>product.components.specifications.chunks\<close> read a property of \<^verbatim>\<open>undefined\<close>,
  and \<^verbatim>\<open>transformProduct\<close> raises instead of returning defaults.
\<close>

theorem transformProduct_no_specifications_counterexample:
  "transformProduct no_specifications_record = Inl TypeError"
  by (simp add: transformProduct_def no_specifications_record_def bare_record_def
      bare_components_def)

text \<open>
  C2, amended: for every well-formed raw record \<^verbatim>\<open>transformProduct\<close> returns a product
  and does not raise, and every gap in the first chunk of the specifications falls back
  to a concrete default: wattage 0, dimensions \<^verbatim>\<open>Unknown\<close>, weight 0. In particular a
  record whose \<^verbatim>\<open>chunks\<close> array is empty gets all three defaults. (The product of
  \<^verbatim>\<open>server.js\<close> has no \<^verbatim>\<open>mounting\<close> field.)
\<close>

theorem transformProduct_defaults:
  assumes "well_formed p"
    and "components p = Some c" and "specifications c = Some sb" and "chunks sb = Some chs"
  shows "\<exists>out. transformProduct p = Inr out \<and>
     s_wattage (p_specifications out) =
       (case optchain (nth0 chs) wattage of None \<Rightarrow> 0 | Some w \<Rightarrow> w) \<and>
     s_dimensions (p_specifications out) =
       (case optchain (nth0 chs) dimensions of
          None \<Rightarrow> ''Unknown'' | Some s \<Rightarrow> if s = [] then ''Unknown'' else s) \<and>
     s_weight (p_specifications out) =
       (case optchain (nth0 chs) weight of None \<Rightarrow> 0 | Some w \<Rightarrow> w) \<and>
     (chs = [] \<longrightarrow>
        p_specifications out = \<lparr>s_wattage = 0, s_dimensions = ''Unknown'', s_weight = 0\<rparr>)"
proof -
  from assms(1) obtain out where out: "transformProduct p = Inr out"
    using transformProduct_ok by blast
  from out obtain c' sb' chs' where
    "components p = Some c'" "specifications c' = Some sb'" "chunks sb' = Some chs'"
    and sp: "p_specifications out =
       \<lparr>s_wattage = or_else truthy_num (wattage (or_else truthy_obj (nth0 chs') empty_chunk)) 0,
        s_dimensions =
          or_else truthy_str (dimensions (or_else truthy_obj (nth0 chs') empty_chunk)) ''Unknown'',
        s_weight = or_else truthy_num (weight (or_else truthy_obj (nth0 chs') empty_chunk)) 0\<rparr>"
    by (rule transformProduct_InrD)
  with assms(2-4) have "chs' = chs" by simp
  with sp have "s_wattage (p_specifications out) =
       (case optchain (nth0 chs) wattage of None \<Rightarrow> 0 | Some w \<Rightarrow> w)"
    and "s_dimensions (p_specifications out) =
       (case optchain (nth0 chs) dimensions of
          None \<Rightarrow> ''Unknown'' | Some s \<Rightarrow> if s = [] then ''Unknown'' else s)"
    and "s_weight (p_specifications out) =
       (case optchain (nth0 chs) weight of None \<Rightarrow> 0 | Some w \<Rightarrow> w)"
    and "chs = [] \<longrightarrow>
        p_specifications out = \<lparr>s_wattage = 0, s_dimensions = ''Unknown'', s_weight = 0\<rparr>"
    by (auto simp: or_else_def truthy_num_def truthy_str_def truthy_obj_def nth0_def
        optchain_def empty_chunk_def split: list.splits option.splits)
  with out show ?thesis by blast
qed

lemma well_formed_no_chunk_record: "well_formed no_chunk_record"
  by (simp add: well_formed_def no_chunk_record_def bare_record_def bare_components_def
      has_content_def has_chunks_def)

theorem transformProduct_defaults_witness:
  "well_formed no_chunk_record \<and>
   (\<exists>out. transformProduct no_chunk_record = Inr out \<and>
      p_specifications out = \<lparr>s_wattage = 0, s_dimensions = ''Unknown'', s_weight = 0\<rparr>)"
proof -
  have c: "components no_chunk_record = Some (bare_components (Some \<lparr>chunks = Some []\<rparr>))"
    by (simp add: no_chunk_record_def bare_record_def)
  have s: "specifications (bare_components (Some \<lparr>chunks = Some []\<rparr>)) =
      Some \<lparr>chunks = Some []\<rparr>"
    by (simp add: bare_components_def)
  have ch: "chunks \<lparr>chunks = Some []\<rparr> = Some []" by simp
  from transformProduct_defaults [OF well_formed_no_chunk_record c s ch]
  show ?thesis using well_formed_no_chunk_record by auto
qed

text \<open>
  C10, as stated, fails: a record with zero variants that has no specifications block is
  rejected, \<^verbatim>\<open>transformProduct\<close> raises on it.
\<close>

theorem transformProduct_zero_variants_counterexample:
  "variants no_specifications_record = Some [] \<and>
   transformProduct no_specifications_record = Inl TypeError"
  by (simp add: transformProduct_def no_specifications_record_def bare_record_def
      bare_components_def)

text \<open>
  C10, amended: for every raw record with zero variants that carries
  \<^verbatim>\<open>components\<close> with \<^verbatim>\<open>description.content\<close>, \<^verbatim>\<open>specifications.chunks\<close>,
  \<^verbatim>\<open>features.content\<close> and \<^verbatim>\<open>productImages\<close>, \<^verbatim>\<open>transformProduct\<close> does not
  reject the record and does not fabricate a variant: it returns a product whose variants
  sequence is empty, whose price is 0 and whose currency is \<^verbatim>\<open>GBP\<close>.
\<close>

theorem transformProduct_zero_variants:
  assumes "components p = Some c"
    and "description c = Some db" and "content db = Some d"
    and "specifications c = Some sb" and "chunks sb = Some chs"
    and "features c = Some fb" and "content fb = Some f"
    and "productImages c = Some ib"
    and "variants p = Some []"
  shows "\<exists>out. transformProduct p = Inr out \<and> p_variants out = [] \<and>
     p_price out = 0 \<and> p_currency out = ''GBP''"
proof -
  have m: "mapiE (transformVariant (ident p)) 0 [] = Inr []" by simp
  have fc: "first_currency [] = Inr None"
    by (simp add: first_currency_def nth0_def)
  from transformProduct_eq [OF assms(1) assms(4) assms(5) assms(2) assms(3) assms(6)
      assms(7) assms(8) assms(9) m fc]
  show ?thesis
    by (simp add: nth0_def optchain_def or_else_def)
qed

theorem transformProduct_zero_variants_witness:
  "components no_chunk_record = Some (bare_components (Some \<lparr>chunks = Some []\<rparr>)) \<and>
   variants no_chunk_record = Some [] \<and>
   (\<exists>out. transformProduct no_chunk_record = Inr out \<and> p_variants out = [] \<and>
      p_price out = 0 \<and> p_currency out = ''GBP'')"
proof -
  let ?c = "bare_components (Some \<lparr>chunks = Some []\<rparr>)"
  have c: "components no_chunk_record = Some ?c"
    by (simp add: no_chunk_record_def bare_record_def)
  have v: "variants no_chunk_record = Some []"
    by (simp add: no_chunk_record_def bare_record_def)
  have d: "description ?c =
      Some \<lparr>content = Some \<lparr>html = ''<p>Bare</p>'', plainText = ''Bare''\<rparr>\<rparr>"
    by (simp add: bare_components_def)
  have dc: "content \<lparr>content = Some \<lparr>html = ''<p>Bare</p>'', plainText = ''Bare''\<rparr>\<rparr> =
      Some \<lparr>html = ''<p>Bare</p>'', plainText = ''Bare''\<rparr>"
    by simp
  have sp: "specifications ?c = Some \<lparr>chunks = Some []\<rparr>"
    by (simp add: bare_components_def)
  have ch: "chunks \<lparr>chunks = Some []\<rparr> = Some []" by simp
  have f: "features ?c = Some \<lparr>content = Some \<lparr>html = ''<ul></ul>'', plainText = []\<rparr>\<rparr>"
    by (simp add: bare_components_def)
  have fcn: "content \<lparr>content = Some \<lparr>html = ''<ul></ul>'', plainText = []\<rparr>\<rparr> =
      Some \<lparr>html = ''<ul></ul>'', plainText = []\<rparr>"
    by simp
  have im: "productImages ?c = Some \<lparr>images = None\<rparr>"
    by (simp add: bare_components_def)
  from transformProduct_zero_variants [OF c d dc sp ch f fcn im v]
  show ?thesis using c v by simp
qed

lemma flagged_second_eval:
  "transformProduct flagged_second_record = Inr flagged_second_product"
  by code_simp

text \<open>
  C1, as stated, fails: when the second variant carries \<^verbatim>\<open>isDefault = true\<close> and the
  first does not, the default variant of the specification is the second one (price 200,
  currency EUR), yet the product takes its price and currency from the first (100, GBP).
\<close>

theorem transformProduct_flagged_second_counterexample:
  "transformProduct flagged_second_record = Inr flagged_second_product \<and>
   map_option pv_price (default_variant_spec (p_variants flagged_second_product)) =
     Some (Some 200) \<and>
   map_option pv_currency (default_variant_spec (p_variants flagged_second_product)) =
     Some ''EUR'' \<and>
   p_price flagged_second_product = 100 \<and>
   p_currency flagged_second_product = ''GBP''"
  by (simp add: flagged_second_eval)
    (simp add: flagged_second_product_def default_variant_spec_def)

text \<open>
  C1, amended: for every well-formed raw record with at least one variant, the product's
  price and currency equal those of the first variant in source order (the price is 0
  when that variant carries none), whether or not \<^verbatim>\<open>isDefault\<close> is set anywhere. The
  first variant is the default variant of the specification whenever it is flagged or no
  other variant is flagged.
\<close>

theorem transformProduct_price_of_first_variant:
  assumes "well_formed p" and "variants p = Some (v # vs)"
  shows "\<exists>out tv tvs. transformProduct p = Inr out \<and> p_variants out = tv # tvs \<and>
     length tvs = length vs \<and>
     pv_price tv = price v \<and>
     p_price out = (case pv_price tv of None \<Rightarrow> 0 | Some x \<Rightarrow> x) \<and>
     p_currency out = pv_currency tv \<and>
     (pv_isDefault tv \<or> list_all (\<lambda>t. \<not> pv_isDefault t) tvs \<longrightarrow>
        default_variant_spec (p_variants out) = Some tv)"
proof -
  from assms(1) obtain out where out: "transformProduct p = Inr out"
    using transformProduct_ok by blast
  from out obtain vs' cur where vs': "variants p = Some vs'"
    and tvs: "mapiE (transformVariant (ident p)) 0 vs' = Inr (p_variants out)"
    and cur: "first_currency vs' = Inr cur"
    and pr: "p_price out = or_else truthy_num (optchain (nth0 vs') price) 0"
    and cu: "p_currency out = or_else truthy_str cur ''GBP''"
    by (rule transformProduct_InrD)
  from vs' assms(2) have eq: "vs' = v # vs" by simp
  from tvs have ok: "list_all (\<lambda>v. priceVariants v \<noteq> None) vs'"
    by (rule mapiE_transformVariant_Inr)
  from mapiE_transformVariant_ok [OF ok, of "ident p" 0] tvs
  have rel: "list_all2 (\<lambda>v tv. pv_price tv = price v \<and>
        pv_currency tv =
          or_else truthy_str (optchain (nth0 (the (priceVariants v))) currency) ''GBP'' \<and>
        pv_isDefault tv = (isDefault v = Some True)) vs' (p_variants out)"
    by auto
  with eq obtain tv tvs' where shape: "p_variants out = tv # tvs'"
    and len: "length tvs' = length vs"
    and hd: "pv_price tv = price v"
      "pv_currency tv =
          or_else truthy_str (optchain (nth0 (the (priceVariants v))) currency) ''GBP''"
    by (auto simp: list_all2_Cons1 dest: list_all2_lengthD)
  from first_currency_ok [OF ok] cur eq
  have "cur = optchain (nth0 (the (priceVariants v))) currency" by simp
  with cu hd have currency: "p_currency out = pv_currency tv" by simp
  from pr eq hd have price: "p_price out = (case pv_price tv of None \<Rightarrow> 0 | Some x \<Rightarrow> x)"
    by (simp add: nth0_def optchain_def or_else_def truthy_num_def split: option.splits)
  have dflt: "pv_isDefault tv \<or> list_all (\<lambda>t. \<not> pv_isDefault t) tvs' \<longrightarrow>
        default_variant_spec (p_variants out) = Some tv"
  proof (cases "pv_isDefault tv")
    case True
    then show ?thesis by (simp add: shape default_variant_spec_def)
  next
    case False
    have "find pv_isDefault tvs' = None" if "list_all (\<lambda>t. \<not> pv_isDefault t) tvs'"
      using that by (simp add: find_None_iff list_all_iff)
    with False show ?thesis
      by (simp add: shape default_variant_spec_def nth0_def)
  qed
  from out shape len hd(1) price currency dflt show ?thesis by blast
qed

lemma well_formed_flagged_second_record: "well_formed flagged_second_record"
  by (simp add: well_formed_def flagged_second_record_def bare_record_def
      bare_components_def has_content_def has_chunks_def)

theorem transformProduct_price_of_first_variant_witness:
  "well_formed flagged_second_record \<and>
   (\<exists>out tv tvs. transformProduct flagged_second_record = Inr out \<and>
      p_variants out = tv # tvs \<and> length tvs = 1 \<and> pv_price tv = Some 100 \<and>
      p_price out = (case pv_price tv of None \<Rightarrow> 0 | Some x \<Rightarrow> x) \<and>
      p_currency out = pv_currency tv)"
proof -
  have v: "variants flagged_second_record =
      Some (\<lparr>vname = ''600W'', sku = ''H-600'', price = Some 100,
         priceVariants = Some [\<lparr>currency = Some ''GBP''\<rparr>], stock = 3,
         isDefault = Some False\<rparr> #
        [\<lparr>vname = ''900W'', sku = ''H-900'', price = Some 200,
         priceVariants = Some [\<lparr>currency = Some ''EUR''\<rparr>], stock = 4,
         isDefault = Some True\<rparr>])"
    by (simp add: flagged_second_record_def bare_record_def)
  from transformProduct_price_of_first_variant [OF well_formed_flagged_second_record v]
  show ?thesis using well_formed_flagged_second_record by auto
qed

subsection \<open>The resolvers\<close>

text \<open>\<^verbatim>\<open>includes\<close> decides the contiguous-sublist relation of the library.\<close>

lemma startsWith_prefix: "startsWith s t \<longleftrightarrow> prefix t s"
  by (induction s t rule: startsWith.induct) auto

lemma includes_str_sublist: "includes_str s t \<longleftrightarrow> sublist t s"
proof (induction s)
  case Nil
  show ?case by (simp add: startsWith_prefix)
next
  case (Cons d s)
  then show ?case by (simp add: startsWith_prefix sublist_Cons_right)
qed

lemma filterE_Inr:
  assumes "\<And>x. x \<in> set xs \<Longrightarrow> f x = Inr (P x)"
  shows "filterE f xs = Inr (filter P xs)"
  using assms by (induction xs) simp_all

lemma mapiE_Inr:
  assumes "\<And>x. x \<in> set xs \<Longrightarrow> f x = Inr (g x)"
  shows "mapiE (\<lambda>i. f) i xs = Inr (map g xs)"
  using assms by (induction xs arbitrary: i) simp_all

lemma mapE_Inr:
  assumes "\<And>x. x \<in> set xs \<Longrightarrow> f x = Inr (g x)"
  shows "mapE f xs = Inr (map g xs)"
  unfolding mapE_def using assms by (rule mapiE_Inr)

lemma transformProduct_projr:
  assumes "well_formed p"
  shows "transformProduct p = Inr (projr (transformProduct p))"
  using transformProduct_ok [OF assms] by auto

lemma mapE_transformProduct:
  assumes "list_all well_formed xs"
  shows "mapE transformProduct xs = Inr (map (\<lambda>p. projr (transformProduct p)) xs)"
  using assms by (intro mapE_Inr transformProduct_projr) (simp add: list_all_iff)

lemma first_price_projr:
  assumes "well_formed p"
  shows "first_price p = Inr (p_price (projr (transformProduct p)))"
proof -
  from transformProduct_projr [OF assms] obtain vs where
    "variants p = Some vs"
    "p_price (projr (transformProduct p)) = or_else truthy_num (optchain (nth0 vs) price) 0"
    by (rule transformProduct_InrD)
  then show ?thesis by (simp add: first_price_def)
qed

lemma first_wattage_projr:
  assumes "well_formed p"
  shows "first_wattage p = Inr (s_wattage (p_specifications (projr (transformProduct p))))"
proof -
  from transformProduct_projr [OF assms] obtain c sb chs where
    "components p = Some c" "specifications c = Some sb" "chunks sb = Some chs"
    "p_specifications (projr (transformProduct p)) =
       \<lparr>s_wattage = or_else truthy_num (wattage (or_else truthy_obj (nth0 chs) empty_chunk)) 0,
        s_dimensions =
          or_else truthy_str (dimensions (or_else truthy_obj (nth0 chs) empty_chunk)) ''Unknown'',
        s_weight = or_else truthy_num (weight (or_else truthy_obj (nth0 chs) empty_chunk)) 0\<rparr>"
    by (rule transformProduct_InrD)
  then show ?thesis
    by (cases chs)
      (simp_all add: first_wattage_def nth0_def optchain_def or_else_def truthy_obj_def
        empty_chunk_def)
qed

lemma search_match_projr:
  assumes "well_formed p"
  shows "search_match t p =
     Inr (sublist t (toLowerCase (p_name (projr (transformProduct p)))) \<or>
          sublist t (toLowerCase (plainText (p_description (projr (transformProduct p))))) \<or>
          sublist t (toLowerCase (p_category (projr (transformProduct p)))))"
proof -
  from transformProduct_projr [OF assms] obtain c db d where
    "components p = Some c" "description c = Some db" "content db = Some d"
    "p_name (projr (transformProduct p)) = name p"
    "p_category (projr (transformProduct p)) = category p"
    "plainText (p_description (projr (transformProduct p))) = plainText d"
    by (rule transformProduct_InrD)
  then show ?thesis
    by (simp add: search_match_def includes_str_sublist)
qed

lemma search_raises_eval:
  "sublist (toLowerCase ''bare'') (toLowerCase (name no_specifications_record))"
  "searchProducts [no_specifications_record] ''bare'' = Inl TypeError"
  by code_simp+

text \<open>
  C5, as stated, fails: on a catalog that holds a record without a specifications block
  whose name contains the query, \<^verbatim>\<open>searchProducts\<close> returns no products at all. The
  record passes the filter and \<^verbatim>\<open>transformProduct\<close> then raises on it.
\<close>

theorem searchProducts_raises_counterexample:
  "sublist (toLowerCase ''bare'') (toLowerCase (name no_specifications_record)) \<and>
   searchProducts [no_specifications_record] ''bare'' = Inl TypeError"
  by (simp add: search_raises_eval)

text \<open>
  C5, amended: for every catalog of well-formed records and every query string,
  \<^verbatim>\<open>searchProducts\<close> returns, in catalog order, exactly the products for which the
  lowercased query is a substring of the lowercased name, or of the lowercased description
  plain text, or of the lowercased category.
\<close>

theorem searchProducts_substring_match:
  assumes "list_all well_formed catalog"
  shows "searchProducts catalog query =
     Inr (filter
       (\<lambda>out. sublist (toLowerCase query) (toLowerCase (p_name out)) \<or>
              sublist (toLowerCase query) (toLowerCase (plainText (p_description out))) \<or>
              sublist (toLowerCase query) (toLowerCase (p_category out)))
       (normalized catalog))"
proof -
  let ?g = "\<lambda>p. projr (transformProduct p)"
  let ?P = "\<lambda>out. sublist (toLowerCase query) (toLowerCase (p_name out)) \<or>
              sublist (toLowerCase query) (toLowerCase (plainText (p_description out))) \<or>
              sublist (toLowerCase query) (toLowerCase (p_category out))"
  from assms have wf: "\<And>p. p \<in> set catalog \<Longrightarrow> well_formed p"
    by (simp add: list_all_iff)
  have "filterE (search_match (toLowerCase query)) catalog =
      Inr (filter (\<lambda>p. ?P (?g p)) catalog)"
    by (rule filterE_Inr) (simp add: search_match_projr wf)
  moreover from assms have "list_all well_formed (filter (\<lambda>p. ?P (?g p)) catalog)"
    by (simp add: list_all_iff)
  ultimately have "searchProducts catalog query =
      Inr (map ?g (filter (\<lambda>p. ?P (?g p)) catalog))"
    by (simp add: searchProducts_def mapE_transformProduct)
  then show ?thesis
    by (simp add: normalized_def filter_map o_def)
qed

lemma price_range_raises_eval:
  "first_price priced_no_specifications_record = Inr 200"
  "productsByPriceRange [priced_no_specifications_record] 200 500 = Inl TypeError"
  by code_simp+

text \<open>
  C7, as stated, fails: a record priced exactly at the minimum that has no specifications
  block is not included, \<^verbatim>\<open>productsByPriceRange\<close> raises. The record passes the
  filter and \<^verbatim>\<open>transformProduct\<close> then raises on it.
\<close>

theorem productsByPriceRange_raises_counterexample:
  "first_price priced_no_specifications_record = Inr 200 \<and>
   productsByPriceRange [priced_no_specifications_record] 200 500 = Inl TypeError"
  by (simp add: price_range_raises_eval)

text \<open>
  C7, amended: for every catalog of well-formed records and all bounds,
  \<^verbatim>\<open>productsByPriceRange\<close> returns exactly the products whose price lies between the
  bounds, both included: a product priced exactly at a bound of a range is in the result,
  one priced strictly below the minimum or strictly above the maximum is not.
\<close>

theorem productsByPriceRange_inclusive:
  assumes "list_all well_formed catalog"
  shows "productsByPriceRange catalog lo hi =
     Inr (filter (\<lambda>out. lo \<le> p_price out \<and> p_price out \<le> hi) (normalized catalog))"
proof -
  let ?g = "\<lambda>p. projr (transformProduct p)"
  from assms have wf: "\<And>p. p \<in> set catalog \<Longrightarrow> well_formed p"
    by (simp add: list_all_iff)
  have "filterE (\<lambda>p. bindE (first_price p) (\<lambda>price. Inr (lo \<le> price \<and> price \<le> hi))) catalog =
      Inr (filter (\<lambda>p. lo \<le> p_price (?g p) \<and> p_price (?g p) \<le> hi) catalog)"
    by (rule filterE_Inr) (simp add: first_price_projr wf)
  moreover from assms
  have "list_all well_formed (filter (\<lambda>p. lo \<le> p_price (?g p) \<and> p_price (?g p) \<le> hi) catalog)"
    by (simp add: list_all_iff)
  ultimately have "productsByPriceRange catalog lo hi =
      Inr (map ?g (filter (\<lambda>p. lo \<le> p_price (?g p) \<and> p_price (?g p) \<le> hi) catalog))"
    by (simp add: productsByPriceRange_def mapE_transformProduct)
  then show ?thesis
    by (simp add: normalized_def filter_map o_def)
qed

lemma new_Set_fold:
  "distinct acc \<Longrightarrow>
   distinct (fold (\<lambda>x acc. if x \<in> set acc then acc else acc @ [x]) xs acc) \<and>
   set (fold (\<lambda>x acc. if x \<in> set acc then acc else acc @ [x]) xs acc) = set acc \<union> set xs"
  by (induction xs arbitrary: acc) auto

lemma distinct_new_Set: "distinct (new_Set xs)"
  using new_Set_fold [of "[]" xs] by (simp add: new_Set_def)

lemma set_new_Set: "set (new_Set xs) = set xs"
  using new_Set_fold [of "[]" xs] by (simp add: new_Set_def)

text \<open>
  C6: for every catalog, \<^verbatim>\<open>categories\<close> returns the category strings of the products
  without duplicates (two strings are the same only when they are equal character by
  character) in ascending lexical order.
\<close>

theorem categories_distinct_sorted:
  "distinct (categories catalog) \<and> sorted (categories catalog) \<and>
   sorted_wrt (<) (categories catalog) \<and>
   set (categories catalog) = category ` set catalog"
  by (simp add: categories_def distinct_new_Set set_new_Set strict_sorted_iff)


lemma well_formed_boundary_catalog: "list_all well_formed boundary_catalog"
  by (simp add: boundary_catalog_def priced_record_def well_formed_def bare_record_def
      bare_components_def has_content_def has_chunks_def)

lemma well_formed_sample: "list_all well_formed generateSampleProducts"
  by (simp add: generateSampleProducts_def well_formed_def has_content_def has_chunks_def)

lemma well_formed_search_catalog: "list_all well_formed search_catalog"
  by (simp add: search_catalog_def well_formed_sample well_formed_no_chunk_record)

lemma boundary_eval:
  "map_sum id (map p_price) (productsByPriceRange boundary_catalog 200 500) = Inr [200, 500]"
  by code_simp

theorem productsByPriceRange_inclusive_witness:
  "list_all well_formed boundary_catalog \<and>
   productsByPriceRange boundary_catalog 200 500 =
     Inr (filter (\<lambda>out. 200 \<le> p_price out \<and> p_price out \<le> 500)
       (normalized boundary_catalog)) \<and>
   map_sum id (map p_price) (productsByPriceRange boundary_catalog 200 500) = Inr [200, 500]"
  using productsByPriceRange_inclusive [OF well_formed_boundary_catalog, of 200 500]
    well_formed_boundary_catalog boundary_eval
  by simp

lemma toLowerCase_eval:
  "toLowerCase ''Panel Heaters'' = ''panel heaters''"
  "toLowerCase [char_of (201::nat), char_of (215::nat), char_of (222::nat)] =
     [char_of (233::nat), char_of (215::nat), char_of (254::nat)]"
  by code_simp+

lemma search_eval:
  "map_sum id (map p_id) (searchProducts search_catalog ''PANEL'') =
     Inr [''sample-panel-heater'', ''bare-heater'']"
  "map_sum id (map p_id) (searchProducts search_catalog ''Quality'') =
     Inr [''sample-panel-heater'']"
  by code_simp+

theorem searchProducts_substring_match_witness:
  "list_all well_formed search_catalog \<and>
   searchProducts search_catalog ''PANEL'' =
     Inr (filter
       (\<lambda>out. sublist (toLowerCase ''PANEL'') (toLowerCase (p_name out)) \<or>
              sublist (toLowerCase ''PANEL'') (toLowerCase (plainText (p_description out))) \<or>
              sublist (toLowerCase ''PANEL'') (toLowerCase (p_category out)))
       (normalized search_catalog)) \<and>
   map_sum id (map p_id) (searchProducts search_catalog ''PANEL'') =
     Inr [''sample-panel-heater'', ''bare-heater''] \<and>
   map_sum id (map p_id) (searchProducts search_catalog ''Quality'') =
     Inr [''sample-panel-heater'']"
  using searchProducts_substring_match [OF well_formed_search_catalog, of "''PANEL''"]
    well_formed_search_catalog search_eval
  by simp

lemma categories_eval: "categories category_catalog = [''B'', ''a'', ''b'']"
  by code_simp

theorem categories_distinct_sorted_witness:
  "categories category_catalog = [''B'', ''a'', ''b''] \<and>
   distinct (categories category_catalog) \<and> sorted (categories category_catalog)"
  using categories_distinct_sorted [of category_catalog] categories_eval
  by simp

subsection \<open>The list operation\<close>

lemma in_bounds_falsy:
  "\<not> truthy truthy_num lo \<Longrightarrow> \<not> truthy truthy_num hi \<Longrightarrow> in_bounds lo hi x"
  by (simp add: truthy_def truthy_num_def in_bounds_def split: option.splits)

lemma price_filter_step:
  assumes "list_all well_formed xs"
  shows "(if truthy truthy_num lo \<or> truthy truthy_num hi
          then filterE (\<lambda>p. bindE (first_price p) (\<lambda>price. Inr (in_bounds lo hi price))) xs
          else Inr xs) =
     Inr (filter (\<lambda>p. in_bounds lo hi (p_price (projr (transformProduct p)))) xs)"
proof (cases "truthy truthy_num lo \<or> truthy truthy_num hi")
  case True
  from assms have wf: "\<And>p. p \<in> set xs \<Longrightarrow> well_formed p"
    by (simp add: list_all_iff)
  have "filterE (\<lambda>p. bindE (first_price p) (\<lambda>price. Inr (in_bounds lo hi price))) xs =
      Inr (filter (\<lambda>p. in_bounds lo hi (p_price (projr (transformProduct p)))) xs)"
    by (rule filterE_Inr) (simp add: first_price_projr wf)
  with True show ?thesis by simp
next
  case False
  then show ?thesis by (simp add: in_bounds_falsy)
qed

lemma wattage_filter_step:
  assumes "list_all well_formed xs"
  shows "(if truthy truthy_num lo \<or> truthy truthy_num hi
          then filterE (\<lambda>p. bindE (first_wattage p) (\<lambda>wattage. Inr (in_bounds lo hi wattage))) xs
          else Inr xs) =
     Inr (filter (\<lambda>p. in_bounds lo hi
            (s_wattage (p_specifications (projr (transformProduct p))))) xs)"
proof (cases "truthy truthy_num lo \<or> truthy truthy_num hi")
  case True
  from assms have wf: "\<And>p. p \<in> set xs \<Longrightarrow> well_formed p"
    by (simp add: list_all_iff)
  have "filterE (\<lambda>p. bindE (first_wattage p) (\<lambda>wattage. Inr (in_bounds lo hi wattage))) xs =
      Inr (filter (\<lambda>p. in_bounds lo hi
            (s_wattage (p_specifications (projr (transformProduct p))))) xs)"
    by (rule filterE_Inr) (simp add: first_wattage_projr wf)
  with True show ?thesis by simp
next
  case False
  then show ?thesis by (simp add: in_bounds_falsy)
qed

lemma category_filter_step:
  assumes "list_all well_formed xs"
  shows "(case c of
            None \<Rightarrow> xs
          | Some c \<Rightarrow>
              if truthy_str c
              then filter (\<lambda>p. includes_str (toLowerCase (category p)) (toLowerCase c)) xs
              else xs) =
     filter (\<lambda>p. case c of None \<Rightarrow> True
         | Some c \<Rightarrow> sublist (toLowerCase c)
             (toLowerCase (p_category (projr (transformProduct p))))) xs"
proof (cases c)
  case None
  then show ?thesis by simp
next
  case (Some s)
  from assms have wf: "\<And>p. p \<in> set xs \<Longrightarrow> well_formed p"
    by (simp add: list_all_iff)
  have cat: "p_category (projr (transformProduct p)) = category p" if "p \<in> set xs" for p
  proof -
    from transformProduct_projr [OF wf [OF that]] show ?thesis
      by (rule transformProduct_InrD)
  qed
  show ?thesis
  proof (cases "truthy_str s")
    case True
    with Some show ?thesis
      by (auto simp: includes_str_sublist cat intro!: filter_cong)
  next
    case False
    then have "s = []" by (simp add: truthy_str_def)
    with Some False show ?thesis by (simp add: toLowerCase_def)
  qed
qed

lemma slice0_map: "slice0 (map g xs) n = map g (slice0 xs n)"
  by (simp add: slice0_def take_map)

lemma products_no_filter:
  assumes "list_all well_formed catalog"
  shows "products catalog first None =
     Inr (slice0 (normalized catalog) (case first of None \<Rightarrow> 20 | Some n \<Rightarrow> n))"
proof -
  from assms have "list_all well_formed
      (slice0 catalog (case first of None \<Rightarrow> 20 | Some n \<Rightarrow> n))"
    by (auto simp: list_all_iff slice0_def dest: in_set_takeD)
  then show ?thesis
    by (simp add: products_def mapE_transformProduct normalized_def slice0_map)
qed

lemma products_filter:
  assumes "list_all well_formed catalog"
  shows "products catalog first (Some f) =
     Inr (slice0
       (filter
          (\<lambda>out. (case f_category f of None \<Rightarrow> True
                   | Some c \<Rightarrow> sublist (toLowerCase c) (toLowerCase (p_category out))) \<and>
                 in_bounds (minPrice f) (maxPrice f) (p_price out) \<and>
                 in_bounds (minWattage f) (maxWattage f) (s_wattage (p_specifications out)))
          (normalized catalog))
       (case first of None \<Rightarrow> 20 | Some n \<Rightarrow> n))"
proof -
  let ?g = "\<lambda>p. projr (transformProduct p)"
  let ?C = "\<lambda>p. case f_category f of None \<Rightarrow> True
      | Some c \<Rightarrow> sublist (toLowerCase c) (toLowerCase (p_category (?g p)))"
  let ?P = "\<lambda>p. in_bounds (minPrice f) (maxPrice f) (p_price (?g p))"
  let ?W = "\<lambda>p. in_bounds (minWattage f) (maxWattage f) (s_wattage (p_specifications (?g p)))"
  let ?n = "case first of None \<Rightarrow> 20 | Some n \<Rightarrow> n"
  from assms have wf1: "list_all well_formed (filter ?C catalog)"
    by (simp add: list_all_iff)
  then have wf2: "list_all well_formed (filter ?P (filter ?C catalog))"
    by (simp add: list_all_iff)
  then have wf3: "list_all well_formed (filter ?W (filter ?P (filter ?C catalog)))"
    by (simp add: list_all_iff)
  then have wf4: "list_all well_formed (slice0 (filter ?W (filter ?P (filter ?C catalog))) ?n)"
    by (auto simp: list_all_iff slice0_def dest: in_set_takeD)
  have "products catalog first (Some f) =
      Inr (map ?g (slice0 (filter ?W (filter ?P (filter ?C catalog))) ?n))"
    unfolding products_def
    by (simp only: option.case category_filter_step [OF assms] bindE_simps
        price_filter_step [OF wf1] wattage_filter_step [OF wf2]
        mapE_transformProduct [OF wf4])
  also have "map ?g (slice0 (filter ?W (filter ?P (filter ?C catalog))) ?n) =
      slice0 (filter (\<lambda>out. (case f_category f of None \<Rightarrow> True
                   | Some c \<Rightarrow> sublist (toLowerCase c) (toLowerCase (p_category out))) \<and>
                 in_bounds (minPrice f) (maxPrice f) (p_price out) \<and>
                 in_bounds (minWattage f) (maxWattage f) (s_wattage (p_specifications out)))
          (normalized catalog)) ?n"
    by (simp add: normalized_def slice0_map filter_map o_def conj_commute conj_left_commute)
  finally show ?thesis .
qed


lemma in_bounds_reversed:
  "hi < lo \<Longrightarrow> lo \<noteq> 0 \<Longrightarrow> hi \<noteq> 0 \<Longrightarrow> \<not> in_bounds (Some lo) (Some hi) x"
  by (auto simp: in_bounds_def)

lemma slice0_Nil: "slice0 [] n = []"
  by (simp add: slice0_def)

lemma slice0_take: "0 \<le> n \<Longrightarrow> slice0 xs n = take (nat n) xs"
  by (simp add: slice0_def)

lemma in_bounds_iff:
  "in_bounds lo hi x \<longleftrightarrow>
     (\<forall>l. lo = Some l \<and> l \<noteq> 0 \<longrightarrow> l \<le> x) \<and> (\<forall>h. hi = Some h \<and> h \<noteq> 0 \<longrightarrow> x \<le> h)"
  by (auto simp: in_bounds_def split: option.splits)

lemma case_option_iff:
  "(case c of None \<Rightarrow> True | Some s \<Rightarrow> Q s) \<longleftrightarrow> (\<forall>s. c = Some s \<longrightarrow> Q s)"
  by (cases c) simp_all

lemma zero_bound_eval:
  "map_sum id (map p_price) (products generateSampleProducts None (Some zero_bound_filter)) =
     Inr [29999 / 100]"
  by code_simp

text \<open>
  C4, as stated, fails for a zero bound: with \<^verbatim>\<open>minPrice = 5\<close> and
  \<^verbatim>\<open>maxPrice = 0\<close> the range is malformed, but the zero upper bound is skipped and the
  sample product (priced 299.99) is returned.
\<close>

theorem products_zero_bound_range_counterexample:
  "minPrice zero_bound_filter = Some 5 \<and> maxPrice zero_bound_filter = Some 0 \<and>
   map_sum id (map p_price) (products generateSampleProducts None (Some zero_bound_filter)) =
     Inr [29999 / 100]"
  by (simp add: zero_bound_eval) (simp add: zero_bound_filter_def)

text \<open>
  C4, amended: for every catalog of well-formed records, every limit and every filter
  whose price range or wattage range is malformed (min above max) with both bounds
  non-zero, negative bounds included, \<^verbatim>\<open>products\<close> returns the empty sequence and
  does not raise.
\<close>

theorem products_reversed_range_empty:
  assumes "list_all well_formed catalog"
    and "(\<exists>lo hi. minPrice f = Some lo \<and> maxPrice f = Some hi \<and>
            hi < lo \<and> lo \<noteq> 0 \<and> hi \<noteq> 0) \<or>
         (\<exists>lo hi. minWattage f = Some lo \<and> maxWattage f = Some hi \<and>
            hi < lo \<and> lo \<noteq> 0 \<and> hi \<noteq> 0)"
  shows "products catalog first (Some f) = Inr []"
proof -
  have "\<not> (in_bounds (minPrice f) (maxPrice f) x \<and>
            in_bounds (minWattage f) (maxWattage f) y)" for x y
    using assms(2) by (auto simp: in_bounds_reversed)
  then show ?thesis
    by (simp add: products_filter [OF assms(1)] slice0_Nil)
qed

lemma reversed_eval:
  "minPrice (reversed_price_filter\<lparr>minPrice := Some (- 1), maxPrice := Some (- 5)\<rparr>) =
     Some (- 1)"
  "maxPrice (reversed_price_filter\<lparr>minPrice := Some (- 1), maxPrice := Some (- 5)\<rparr>) =
     Some (- 5)"
  "minPrice reversed_price_filter = Some 500"
  "maxPrice reversed_price_filter = Some 200"
  by (simp_all add: reversed_price_filter_def)

theorem products_reversed_range_empty_witness:
  "list_all well_formed boundary_catalog \<and>
   products boundary_catalog None (Some reversed_price_filter) = Inr [] \<and>
   products boundary_catalog None
     (Some (reversed_price_filter\<lparr>minPrice := Some (- 1), maxPrice := Some (- 5)\<rparr>)) = Inr []"
  using products_reversed_range_empty [OF well_formed_boundary_catalog, of reversed_price_filter None]
    products_reversed_range_empty [OF well_formed_boundary_catalog,
      of "reversed_price_filter\<lparr>minPrice := Some (- 1), maxPrice := Some (- 5)\<rparr>" None]
    well_formed_boundary_catalog
  by (simp add: reversed_eval)

lemma zero_max_eval:
  "map_sum id (map p_price) (products generateSampleProducts (Some 20) (Some zero_max_filter)) =
     Inr [29999 / 100]"
  "map_sum id (map p_price) (products boundary_catalog (Some (- 1)) None) =
     Inr [200, 500, 19999 / 100]"
  by code_simp+

text \<open>
  C8, as stated, fails: a supplied \<^verbatim>\<open>maxPrice = 0\<close> is not applied (the product priced
  299.99 is returned), and a negative limit does not truncate to a prefix of that length
  (\<^verbatim>\<open>first = -1\<close> returns three of four products).
\<close>

theorem products_conjunction_counterexample:
  "maxPrice zero_max_filter = Some 0 \<and>
   map_sum id (map p_price) (products generateSampleProducts (Some 20) (Some zero_max_filter)) =
     Inr [29999 / 100] \<and>
   map_sum id (map p_price) (products boundary_catalog (Some (- 1)) None) =
     Inr [200, 500, 19999 / 100]"
  by (simp add: zero_max_eval) (simp add: zero_max_filter_def)

text \<open>
  C8, amended: for every catalog of well-formed records, every limit that is not negative
  (20 when omitted) and every filter object, \<^verbatim>\<open>products\<close> returns exactly the products
  satisfying the conjunction of the filter predicates that are supplied with a non-zero
  bound (category substring, minimum and maximum price, minimum and maximum wattage, all
  inclusive), in the catalog's order, truncated to the first \<open>limit\<close> elements.
\<close>

theorem products_conjunction_of_filters:
  assumes "list_all well_formed catalog"
    and "limit = (case first of None \<Rightarrow> 20 | Some n \<Rightarrow> n)" and "0 \<le> limit"
  shows "products catalog first filt =
     Inr (take (nat limit)
       (filter
          (\<lambda>out. \<forall>f. filt = Some f \<longrightarrow>
             (\<forall>c. f_category f = Some c \<longrightarrow>
                sublist (toLowerCase c) (toLowerCase (p_category out))) \<and>
             (\<forall>l. minPrice f = Some l \<and> l \<noteq> 0 \<longrightarrow> l \<le> p_price out) \<and>
             (\<forall>h. maxPrice f = Some h \<and> h \<noteq> 0 \<longrightarrow> p_price out \<le> h) \<and>
             (\<forall>l. minWattage f = Some l \<and> l \<noteq> 0 \<longrightarrow> l \<le> s_wattage (p_specifications out)) \<and>
             (\<forall>h. maxWattage f = Some h \<and> h \<noteq> 0 \<longrightarrow> s_wattage (p_specifications out) \<le> h))
          (normalized catalog)))"
proof (cases filt)
  case None
  with assms show ?thesis
    by (simp add: products_no_filter slice0_take)
next
  case (Some f)
  with assms show ?thesis
    by (simp add: products_filter slice0_take in_bounds_iff case_option_iff)
qed


lemma range_eval:
  "map_sum id (map p_price) (products boundary_catalog (Some 1) (Some range_filter)) =
     Inr [200]"
  "map_sum id (map p_price) (products boundary_catalog None (Some range_filter)) =
     Inr [200, 500]"
  by code_simp+

theorem products_conjunction_of_filters_witness:
  "list_all well_formed boundary_catalog \<and> (0::int) \<le> 1 \<and>
   products boundary_catalog (Some 1) (Some range_filter) =
     Inr (take (nat 1)
       (filter
          (\<lambda>out. \<forall>f. Some range_filter = Some f \<longrightarrow>
             (\<forall>c. f_category f = Some c \<longrightarrow>
                sublist (toLowerCase c) (toLowerCase (p_category out))) \<and>
             (\<forall>l. minPrice f = Some l \<and> l \<noteq> 0 \<longrightarrow> l \<le> p_price out) \<and>
             (\<forall>h. maxPrice f = Some h \<and> h \<noteq> 0 \<longrightarrow> p_price out \<le> h) \<and>
             (\<forall>l. minWattage f = Some l \<and> l \<noteq> 0 \<longrightarrow> l \<le> s_wattage (p_specifications out)) \<and>
             (\<forall>h. maxWattage f = Some h \<and> h \<noteq> 0 \<longrightarrow> s_wattage (p_specifications out) \<le> h))
          (normalized boundary_catalog))) \<and>
   map_sum id (map p_price) (products boundary_catalog (Some 1) (Some range_filter)) =
     Inr [200] \<and>
   map_sum id (map p_price) (products boundary_catalog None (Some range_filter)) =
     Inr [200, 500]"
proof -
  have lim: "(1::int) = (case Some 1 of None \<Rightarrow> 20 | Some n \<Rightarrow> n)" by simp
  have pos: "(0::int) \<le> 1" by simp
  from products_conjunction_of_filters [OF well_formed_boundary_catalog lim pos,
      of "Some range_filter"]
  show ?thesis
    using well_formed_boundary_catalog range_eval pos by (intro conjI) assumption+
qed

end
